theory Spec2Isabelle
  imports Complex_Main
begin

section \<open>Hex colour utility (src/lib/color/utils.ts)\<close>

text \<open>
  JavaScript strings are modelled as \<^typ>\<open>string\<close>. Every character that the functions
  below accept or produce is ASCII, so one \<^typ>\<open>char\<close> stands for one UTF-16 code unit.
\<close>

definition isHexDigit :: "char \<Rightarrow> bool" where
  \<comment> \<open>the character class \<^verbatim>\<open>[0-9A-Fa-f]\<close>\<close>
  "isHexDigit ch \<longleftrightarrow> ch \<in> set ''0123456789ABCDEFabcdef''"

definition isUpperHexDigit :: "char \<Rightarrow> bool" where
  "isUpperHexDigit ch \<longleftrightarrow> ch \<in> set ''0123456789ABCDEF''"

definition toUpperChar :: "char \<Rightarrow> char" where
  \<comment> \<open>\<^verbatim>\<open>toUpperCase\<close> on one ASCII character\<close>
  "toUpperChar ch =
     (case map_of (zip ''abcdefghijklmnopqrstuvwxyz'' ''ABCDEFGHIJKLMNOPQRSTUVWXYZ'') ch of
        Some u \<Rightarrow> u
      | None \<Rightarrow> ch)"

definition toUpperCase :: "string \<Rightarrow> string" where
  "toUpperCase s = map toUpperChar s"

definition startsWithHash :: "string \<Rightarrow> bool" where
  \<comment> \<open>\<^verbatim>\<open>value.startsWith('#')\<close>\<close>
  "startsWithHash s = (case s of [] \<Rightarrow> False | ch # _ \<Rightarrow> ch = CHR ''#'')"

definition isValidHex :: "string \<Rightarrow> bool" where
  \<comment> \<open>\<^verbatim>\<open>/^#?([0-9A-Fa-f]{3}|[0-9A-Fa-f]{6})$/.test(value)\<close>: the optional \<^verbatim>\<open>#\<close> is
      consumed when it is there (it is no hex digit), and what follows must be exactly
      three or exactly six hex digits up to the end of the string.\<close>
  "isValidHex v =
     (let body = (if startsWithHash v then drop 1 v else v)
      in (length body = 3 \<or> length body = 6) \<and> list_all isHexDigit body)"

definition normalizeHex :: "string \<Rightarrow> string option" where
  "normalizeHex v =
     (if \<not> isValidHex v then None
      else
        let hex = (if startsWithHash v then drop 1 v else v)
        in if length hex = 3
           then Some (toUpperCase (concat (map (\<lambda>ch. [ch, ch]) hex)))
           else Some (toUpperCase hex))"

definition formatHexForDisplay :: "string \<Rightarrow> string" where
  "formatHexForDisplay v =
     (let normalized = toUpperCase v
      in if startsWithHash normalized then normalized else CHR ''#'' # normalized)"

definition parseHexInput :: "string \<Rightarrow> string option" where
  "parseHexInput v = normalizeHex v"

section \<open>The colour library (culori)\<close>

text \<open>
  The repository imports \<^verbatim>\<open>oklch\<close>, \<^verbatim>\<open>formatHex\<close> and \<^verbatim>\<open>wcagContrast\<close> from the external
  library culori. The library is no part of the repository, so the three functions are
  parameters of the model, collected in the record \<open>culori\<close>; every function of the
  repository that calls the library takes the record as its first argument.

  JavaScript numbers are read as real numbers: the model computes with exact values where
  the program computes with IEEE doubles.
\<close>

record Oklch =
  oklch_l :: real
  oklch_c :: real
  oklch_h :: "real option"
  oklch_alpha :: "real option"

record culori =
  oklch :: "string \<Rightarrow> Oklch option"
    \<comment> \<open>\<open>None\<close>: the library returns \<^verbatim>\<open>undefined\<close>, or a colour without lightness\<close>
  formatHex :: "Oklch \<Rightarrow> string option"
    \<comment> \<open>\<open>None\<close>: the library returns \<^verbatim>\<open>undefined\<close>\<close>
  wcagContrast :: "string \<Rightarrow> string \<Rightarrow> real"

section \<open>Nearest accessible colour (suggestions.ts)\<close>

definition MAX_ITERATIONS :: nat where
  "MAX_ITERATIONS = 50"

definition LIGHTNESS_PRECISION :: real where
  "LIGHTNESS_PRECISION = 1 / 1000"

text \<open>The local variables of the loop in \<^verbatim>\<open>searchLightness\<close>.\<close>

record SearchState =
  low :: real
  high :: real
  bestColor :: "Oklch option"
  iterations :: nat

text \<open>
  The \<^verbatim>\<open>while\<close> loop of \<^verbatim>\<open>searchLightness\<close>, from a state of its variables to the state in
  which it stops. \<^verbatim>\<open>if (!testHex) break\<close> leaves the loop on \<^verbatim>\<open>undefined\<close> and on the empty
  string, after the iteration has been counted.
\<close>

function searchLoop ::
  "culori \<Rightarrow> Oklch \<Rightarrow> string \<Rightarrow> real \<Rightarrow> bool \<Rightarrow> SearchState \<Rightarrow> SearchState" where
  "searchLoop lib fg bgColor targetRatio shouldDarken st =
     (if iterations st < MAX_ITERATIONS \<and> high st - low st > LIGHTNESS_PRECISION then
        (let st1 = st\<lparr>iterations := iterations st + 1\<rparr>;
             mid = (low st + high st) / 2;
             testColor = fg\<lparr>oklch_l := mid\<rparr>
         in case formatHex lib testColor of
              None \<Rightarrow> st1
            | Some testHex \<Rightarrow>
                if testHex = [] then st1
                else if wcagContrast lib testHex bgColor \<ge> targetRatio then
                  searchLoop lib fg bgColor targetRatio shouldDarken
                    (if shouldDarken then st1\<lparr>bestColor := Some testColor, low := mid\<rparr>
                     else st1\<lparr>bestColor := Some testColor, high := mid\<rparr>)
                else
                  searchLoop lib fg bgColor targetRatio shouldDarken
                    (if shouldDarken then st1\<lparr>high := mid\<rparr> else st1\<lparr>low := mid\<rparr>))
      else st)"
  by pat_completeness auto
termination
  by (relation "measure (\<lambda>(lib, fg, bgColor, targetRatio, shouldDarken, st).
        MAX_ITERATIONS - iterations st)") auto

declare searchLoop.simps [simp del]

definition searchStart :: "Oklch \<Rightarrow> bool \<Rightarrow> SearchState" where
  \<comment> \<open>the variables as \<^verbatim>\<open>searchLightness\<close> initialises them\<close>
  "searchStart fg shouldDarken =
     \<lparr>low = (if shouldDarken then 0 else oklch_l fg),
      high = (if shouldDarken then oklch_l fg else 1),
      bestColor = None,
      iterations = 0\<rparr>"

definition searchLightness ::
  "culori \<Rightarrow> Oklch \<Rightarrow> string \<Rightarrow> real \<Rightarrow> bool \<Rightarrow> Oklch option" where
  "searchLightness lib fg bgColor targetRatio shouldDarken =
     bestColor (searchLoop lib fg bgColor targetRatio shouldDarken (searchStart fg shouldDarken))"

definition findNearestAccessible :: "culori \<Rightarrow> string \<Rightarrow> string \<Rightarrow> real \<Rightarrow> string option" where
  "findNearestAccessible lib foregroundHex backgroundHex targetRatio =
     (let fgColor = CHR ''#'' # foregroundHex;
          bgColor = CHR ''#'' # backgroundHex
      in case oklch lib fgColor of
           None \<Rightarrow> None
         | Some fg \<Rightarrow>
             let currentRatio = wcagContrast lib fgColor bgColor
             in if currentRatio \<ge> targetRatio then Some foregroundHex
                else
                  let bgLightness = (case oklch lib bgColor of
                                       Some bg \<Rightarrow> oklch_l bg | None \<Rightarrow> 1 / 2);
                      shouldDarken = (oklch_l fg > bgLightness);
                      result = (case searchLightness lib fg bgColor targetRatio shouldDarken of
                                  Some r \<Rightarrow> Some r
                                | None \<Rightarrow>
                                    searchLightness lib fg bgColor targetRatio (\<not> shouldDarken))
                  in case result of
                       None \<Rightarrow> None
                     | Some r \<Rightarrow>
                         (case formatHex lib r of
                            None \<Rightarrow> None
                          | Some hexResult \<Rightarrow>
                              if hexResult = [] then None
                              else Some (toUpperCase (remove1 CHR ''#'' hexResult))))"

datatype TargetLevel = AA | AAA

definition getTargetRatio :: "TargetLevel \<Rightarrow> bool \<Rightarrow> real" where
  \<comment> \<open>the second parameter is \<^verbatim>\<open>isLarge\<close>, which defaults to \<^verbatim>\<open>false\<close>\<close>
  "getTargetRatio targetLevel isLarge =
     (if isLarge then 3 else if targetLevel = AA then 45 / 10 else 7)"

section \<open>Contrast calculation (src/lib/color/contrast.ts)\<close>

definition AA_NORMAL :: real where "AA_NORMAL = 45 / 10"
definition AAA_NORMAL :: real where "AAA_NORMAL = 7"
definition AA_LARGE :: real where "AA_LARGE = 3"
definition UI_COMPONENT :: real where "UI_COMPONENT = 3"

definition js_round :: "real \<Rightarrow> int" where
  \<comment> \<open>\<^verbatim>\<open>Math.round\<close>: the nearest integer, a half rounded up\<close>
  "js_round x = \<lfloor>x + 1 / 2\<rfloor>"

definition calculateContrast :: "culori \<Rightarrow> string \<Rightarrow> string \<Rightarrow> real" where
  "calculateContrast lib foreground background =
     (let fgColor = CHR ''#'' # foreground;
          bgColor = CHR ''#'' # background;
          ratio = wcagContrast lib fgColor bgColor
      in real_of_int (js_round (ratio * 100)) / 100)"

record Evaluation =
  passesAA :: bool
  passesAAA :: bool
  passesAALarge :: bool
  passesUIComponent :: bool

definition evaluateContrastRatio :: "real \<Rightarrow> Evaluation" where
  "evaluateContrastRatio r =
     \<lparr>passesAA = (r \<ge> AA_NORMAL),
      passesAAA = (r \<ge> AAA_NORMAL),
      passesAALarge = (r \<ge> AA_LARGE),
      passesUIComponent = (r \<ge> UI_COMPONENT)\<rparr>"

text \<open>A \<^verbatim>\<open>ContrastResult\<close> is the evaluation (spread into the object) and five more fields.\<close>

record ContrastResult = Evaluation +
  foregroundId :: string
  backgroundId :: string
  ratio :: real
  apcaValue :: "real option"
  suggestedFix :: "string option"

definition calculateContrastResult ::
  "culori \<Rightarrow> string \<Rightarrow> string \<Rightarrow> string \<Rightarrow> string \<Rightarrow> TargetLevel \<Rightarrow> ContrastResult" where
  "calculateContrastResult lib fgId foregroundHex bgId backgroundHex targetLevel =
     (let r = calculateContrast lib foregroundHex backgroundHex;
          evaluation = evaluateContrastRatio r;
          passes = (if targetLevel = AA then passesAA evaluation else passesAAA evaluation);
          fix = (if \<not> passes \<and> fgId \<noteq> bgId
                 then findNearestAccessible lib foregroundHex backgroundHex
                        (getTargetRatio targetLevel False)
                 else None)
      in \<lparr>passesAA = passesAA evaluation,
          passesAAA = passesAAA evaluation,
          passesAALarge = passesAALarge evaluation,
          passesUIComponent = passesUIComponent evaluation,
          foregroundId = fgId,
          backgroundId = bgId,
          ratio = r,
          apcaValue = None,
          suggestedFix = fix\<rparr>)"

text \<open>An entry of the \<^verbatim>\<open>colors\<close> array: \<^verbatim>\<open>{ id: string; hex: string }\<close>.\<close>

record ColorEntry =
  id' :: string
  hex :: string


definition findContrastResult ::
  "ContrastResult list \<Rightarrow> string \<Rightarrow> string \<Rightarrow> ContrastResult option" where
  "findContrastResult matrix fgId bgId =
     find (\<lambda>result. foregroundId result = fgId \<and> backgroundId result = bgId) matrix"



section \<open>The WCAG 2 contrast ratio\<close>

text \<open>
  Modelled from the spec: the contrast ratio that the library's \<^verbatim>\<open>wcagContrast\<close> computes is
  code of the external library and not of the repository. The definitions of this section
  follow the words of the specification (section 4.2): each sRGB channel is divided by 255
  and decoded by the piecewise curve with its breakpoint at 0.03928, the three channels are
  combined with the weights 0.2126, 0.7152 and 0.0722, and the ratio is
  \<open>(L_lighter + 0.05) / (L_darker + 0.05)\<close>.
\<close>

definition hexDigitValue :: "char \<Rightarrow> nat" where
  \<comment> \<open>Modelled from the spec: the value of a hex digit, case-insensitive on input.\<close>
  "hexDigitValue ch =
     (case map_of (zip ''0123456789abcdefABCDEF''
                       [0, 1, 2, 3, 4, 5, 6, 7, 8, 9, 10, 11, 12, 13, 14, 15,
                        10, 11, 12, 13, 14, 15]) ch of
        Some v \<Rightarrow> v
      | None \<Rightarrow> 0)"

definition parseHexColor :: "string \<Rightarrow> (nat \<times> nat \<times> nat) option" where
  \<comment> \<open>Modelled from the spec: a colour value is \<^verbatim>\<open>#\<close> and six hex digits, two for each of
      red, green and blue.\<close>
  "parseHexColor s =
     (case s of
        [] \<Rightarrow> None
      | ch # ds \<Rightarrow>
          if ch = CHR ''#'' \<and> length ds = 6 \<and> list_all isHexDigit ds
          then Some (16 * hexDigitValue (ds ! 0) + hexDigitValue (ds ! 1),
                     16 * hexDigitValue (ds ! 2) + hexDigitValue (ds ! 3),
                     16 * hexDigitValue (ds ! 4) + hexDigitValue (ds ! 5))
          else None)"

definition linearChannel :: "real \<Rightarrow> real" where
  \<comment> \<open>Modelled from the spec: the piecewise gamma-decoding curve.\<close>
  "linearChannel v =
     (if v \<le> 3928 / 100000 then v / (1292 / 100)
      else ((v + 55 / 1000) / (1055 / 1000)) powr (24 / 10))"

definition relativeLuminance :: "nat \<times> nat \<times> nat \<Rightarrow> real" where
  \<comment> \<open>Modelled from the spec: the luminance weights.\<close>
  "relativeLuminance rgb =
     (case rgb of (r, g, b) \<Rightarrow>
        2126 / 10000 * linearChannel (real r / 255)
        + 7152 / 10000 * linearChannel (real g / 255)
        + 722 / 10000 * linearChannel (real b / 255))"

definition contrastOfLuminances :: "real \<Rightarrow> real \<Rightarrow> real" where
  \<comment> \<open>Modelled from the spec: lighter over darker, each plus 0.05.\<close>
  "contrastOfLuminances L1 L2 = (max L1 L2 + 5 / 100) / (min L1 L2 + 5 / 100)"

definition wcagContrastSpec :: "string \<Rightarrow> string \<Rightarrow> real" where
  \<comment> \<open>Modelled from the spec: the ratio of two colour values. The specification gives no
      ratio for a string that is no colour value; the model returns 1 there.\<close>
  "wcagContrastSpec a b =
     (case (parseHexColor a, parseHexColor b) of
        (Some x, Some y) \<Rightarrow> contrastOfLuminances (relativeLuminance x) (relativeLuminance y)
      | _ \<Rightarrow> 1)"

section \<open>A small instance of the library\<close>

text \<open>
  For running the definitions on concrete colours: the contrast is the WCAG ratio above;
  the colour-space conversion is a two-tone stand-in that takes the relative luminance of a
  colour value as its lightness and writes a colour as black below lightness 1/2 and as
  white from there on.
\<close>

definition twoToneOklch :: "string \<Rightarrow> Oklch option" where
  "twoToneOklch s =
     (case parseHexColor s of
        None \<Rightarrow> None
      | Some rgb \<Rightarrow>
          Some \<lparr>oklch_l = relativeLuminance rgb, oklch_c = 0, oklch_h = None,
                oklch_alpha = None\<rparr>)"

definition twoToneFormatHex :: "Oklch \<Rightarrow> string option" where
  "twoToneFormatHex col = Some (if oklch_l col < 1 / 2 then ''#000000'' else ''#ffffff'')"

definition twoTone :: culori where
  "twoTone = \<lparr>oklch = twoToneOklch, formatHex = twoToneFormatHex,
              wcagContrast = wcagContrastSpec\<rparr>"

section \<open>What the search relies on from the library\<close>

text \<open>
  \<^verbatim>\<open>findNearestAccessible\<close> tests the string that \<^verbatim>\<open>formatHex\<close> writes and returns that string
  with its \<^verbatim>\<open>#\<close> removed and in upper case. That the returned colour has the tested contrast
  rests on two facts about the library: \<^verbatim>\<open>formatHex\<close> writes a string that starts with \<^verbatim>\<open>#\<close>,
  and \<^verbatim>\<open>wcagContrast\<close> reads such a string the same in upper case.
\<close>

definition hexContract :: "culori \<Rightarrow> bool" where
  "hexContract lib \<longleftrightarrow>
     (\<forall>col s. formatHex lib col = Some s \<and> s \<noteq> [] \<longrightarrow>
        hd s = CHR ''#'' \<and> (\<forall>b. wcagContrast lib (toUpperCase s) b = wcagContrast lib s b))"

text \<open>Two colours of the small instance, as \<open>twoToneOklch\<close> reads them.\<close>

definition white :: Oklch where
  "white = \<lparr>oklch_l = 1, oklch_c = 0, oklch_h = None, oklch_alpha = None\<rparr>"

definition yellow :: Oklch where
  "yellow = \<lparr>oklch_l = 9278 / 10000, oklch_c = 0, oklch_h = None, oklch_alpha = None\<rparr>"

section \<open>Properties of the hex colour utility\<close>

lemma upper_hex_digit:
  "isHexDigit ch \<Longrightarrow>
     isUpperHexDigit (toUpperChar ch) \<and> toUpperChar (toUpperChar ch) = toUpperChar ch"
  unfolding isHexDigit_def
  by (simp, elim disjE) (simp_all add: toUpperChar_def isUpperHexDigit_def)

lemma upper_hex_is_hex: "isUpperHexDigit ch \<Longrightarrow> isHexDigit ch"
  by (auto simp: isUpperHexDigit_def isHexDigit_def)

lemma hash_not_hex: "\<not> isHexDigit CHR ''#''"
  by (simp add: isHexDigit_def)

lemma toUpperChar_hash: "toUpperChar CHR ''#'' = CHR ''#''"
  by (simp add: toUpperChar_def)

lemma toUpperCase_hex:
  "list_all isHexDigit ds \<Longrightarrow>
     list_all isUpperHexDigit (toUpperCase ds) \<and> toUpperCase (toUpperCase ds) = toUpperCase ds"
  by (induction ds) (simp_all add: toUpperCase_def upper_hex_digit)

lemma length_toUpperCase: "length (toUpperCase s) = length s"
  by (simp add: toUpperCase_def)

lemma isValidHex_iff:
  "isValidHex s \<longleftrightarrow>
     (\<exists>ds. (s = ds \<or> s = CHR ''#'' # ds) \<and> (length ds = 3 \<or> length ds = 6) \<and>
           list_all isHexDigit ds)"
proof
  assume "isValidHex s"
  then show "\<exists>ds. (s = ds \<or> s = CHR ''#'' # ds) \<and> (length ds = 3 \<or> length ds = 6) \<and>
                  list_all isHexDigit ds"
    by (cases s) (auto simp: isValidHex_def startsWithHash_def Let_def split: if_splits)
next
  assume "\<exists>ds. (s = ds \<or> s = CHR ''#'' # ds) \<and> (length ds = 3 \<or> length ds = 6) \<and>
              list_all isHexDigit ds"
  then obtain ds where ds: "s = ds \<or> s = CHR ''#'' # ds" "length ds = 3 \<or> length ds = 6"
    "list_all isHexDigit ds" by blast
  from ds(1) show "isValidHex s"
  proof
    assume s: "s = ds"
    from ds(2) obtain d ds' where "ds = d # ds'" by (cases ds) auto
    with ds(3) have "\<not> startsWithHash ds"
      using hash_not_hex by (auto simp: startsWithHash_def)
    with s ds show ?thesis by (simp add: isValidHex_def)
  next
    assume "s = CHR ''#'' # ds"
    with ds show ?thesis by (simp add: isValidHex_def startsWithHash_def)
  qed
qed

lemma normalizeHex_plain:
  assumes "list_all isHexDigit ds" and "length ds = 3 \<or> length ds = 6"
    and "s = ds \<or> s = CHR ''#'' # ds"
  shows "normalizeHex s =
     Some (toUpperCase (if length ds = 3 then concat (map (\<lambda>ch. [ch, ch]) ds) else ds))"
proof -
  have valid: "isValidHex s"
    using assms isValidHex_iff by blast
  from assms(2) obtain d ds' where "ds = d # ds'" by (cases ds) auto
  with assms(1) have nohash: "\<not> startsWithHash ds"
    using hash_not_hex by (auto simp: startsWithHash_def)
  have body: "(if startsWithHash s then drop 1 s else s) = ds"
    using assms(3) nohash by (auto simp: startsWithHash_def)
  show ?thesis
    unfolding normalizeHex_def Let_def body using valid by simp
qed

text \<open>
  C9. \<open>normalizeHex\<close> returns null exactly on the strings that are not an optional \<^verbatim>\<open>#\<close>
  followed by three or six hex digits. On three digits it returns each digit doubled and
  uppercased, on six digits the digits uppercased, in both cases without the \<^verbatim>\<open>#\<close>;
  every result is six characters out of \<^verbatim>\<open>0-9A-F\<close>.
\<close>

theorem normalizeHex_spec:
  "(normalizeHex s = None \<longleftrightarrow>
      \<not> (\<exists>ds. (s = ds \<or> s = CHR ''#'' # ds) \<and> (length ds = 3 \<or> length ds = 6) \<and>
              list_all isHexDigit ds))
   \<and> (\<forall>a b c. isHexDigit a \<and> isHexDigit b \<and> isHexDigit c \<and>
              (s = [a, b, c] \<or> s = [CHR ''#'', a, b, c]) \<longrightarrow>
        normalizeHex s = Some (toUpperCase [a, a, b, b, c, c]))
   \<and> (\<forall>ds. length ds = 6 \<and> list_all isHexDigit ds \<and> (s = ds \<or> s = CHR ''#'' # ds) \<longrightarrow>
        normalizeHex s = Some (toUpperCase ds))
   \<and> (\<forall>v. normalizeHex s = Some v \<longrightarrow> length v = 6 \<and> list_all isUpperHexDigit v)"
proof (intro conjI allI impI)
  show "normalizeHex s = None \<longleftrightarrow>
      \<not> (\<exists>ds. (s = ds \<or> s = CHR ''#'' # ds) \<and> (length ds = 3 \<or> length ds = 6) \<and>
              list_all isHexDigit ds)"
    unfolding isValidHex_iff [symmetric] by (simp add: normalizeHex_def Let_def)
next
  fix a b c
  assume h: "isHexDigit a \<and> isHexDigit b \<and> isHexDigit c \<and>
             (s = [a, b, c] \<or> s = [CHR ''#'', a, b, c])"
  then have "normalizeHex s =
     Some (toUpperCase (if length [a, b, c] = 3 then concat (map (\<lambda>ch. [ch, ch]) [a, b, c])
                        else [a, b, c]))"
    by (intro normalizeHex_plain) auto
  then show "normalizeHex s = Some (toUpperCase [a, a, b, b, c, c])" by simp
next
  fix ds
  assume h: "length ds = 6 \<and> list_all isHexDigit ds \<and> (s = ds \<or> s = CHR ''#'' # ds)"
  then have "normalizeHex s =
     Some (toUpperCase (if length ds = 3 then concat (map (\<lambda>ch. [ch, ch]) ds) else ds))"
    by (intro normalizeHex_plain) auto
  with h show "normalizeHex s = Some (toUpperCase ds)" by simp
next
  fix v
  assume v: "normalizeHex s = Some v"
  then have "isValidHex s" by (auto simp: normalizeHex_def split: if_splits)
  then obtain ds where ds: "s = ds \<or> s = CHR ''#'' # ds" "length ds = 3 \<or> length ds = 6"
    "list_all isHexDigit ds" unfolding isValidHex_iff by blast
  let ?e = "if length ds = 3 then concat (map (\<lambda>ch. [ch, ch]) ds) else ds"
  have v_eq: "v = toUpperCase ?e"
    using normalizeHex_plain [OF ds(3) ds(2) ds(1)] v by simp
  have len: "length ?e = 6"
  proof (cases "length ds = 3")
    case True
    then obtain a b c where "ds = [a, b, c]"
      by (cases ds; cases "tl ds"; cases "tl (tl ds)") auto
    then show ?thesis by simp
  next
    case False
    with ds(2) show ?thesis by simp
  qed
  have "list_all isHexDigit ?e"
    using ds(3) by (auto simp: list_all_iff)
  then have "list_all isUpperHexDigit (toUpperCase ?e)"
    using toUpperCase_hex by blast
  with len v_eq show "length v = 6" and "list_all isUpperHexDigit v"
    by (simp_all add: length_toUpperCase)
qed

theorem normalizeHex_spec_witness:
  "normalizeHex ''#abc'' = Some ''AABBCC'' \<and> normalizeHex ''f00'' = Some ''FF0000''
   \<and> normalizeHex ''#1a2B3c'' = Some ''1A2B3C'' \<and> normalizeHex ''zzzzzz'' = None"
proof -
  have d: "isHexDigit CHR ''a''" "isHexDigit CHR ''b''" "isHexDigit CHR ''c''"
    "isHexDigit CHR ''f''" "isHexDigit CHR ''0''" "isHexDigit CHR ''1''"
    "isHexDigit CHR ''2''" "isHexDigit CHR ''3''" "isHexDigit CHR ''B''"
    "\<not> isHexDigit CHR ''z''"
    by (simp_all add: isHexDigit_def)
  have "normalizeHex ''#abc'' = Some (toUpperCase ''aabbcc'')"
    using normalizeHex_spec [of "''#abc''"] d by simp
  moreover have "normalizeHex ''f00'' = Some (toUpperCase ''ff0000'')"
    using normalizeHex_spec [of "''f00''"] d by simp
  moreover have "normalizeHex ''#1a2B3c'' = Some (toUpperCase ''1a2B3c'')"
    using normalizeHex_spec [of "''#1a2B3c''"] d by simp
  moreover have "normalizeHex ''zzzzzz'' = None"
  proof -
    have "\<not> (\<exists>ds. (''zzzzzz'' = ds \<or> ''zzzzzz'' = CHR ''#'' # ds) \<and>
                 (length ds = 3 \<or> length ds = 6) \<and> list_all isHexDigit ds)"
      using d by auto
    then show ?thesis using normalizeHex_spec [of "''zzzzzz''"] by blast
  qed
  ultimately show ?thesis
    by (simp add: toUpperCase_def toUpperChar_def)
qed

text \<open>
  C10. Whatever \<open>normalizeHex\<close> returns is itself a valid hex colour and a fixed point of
  \<open>normalizeHex\<close>: normalising twice is normalising once.
\<close>

theorem normalizeHex_idempotent:
  assumes "normalizeHex s = Some v"
  shows "isValidHex v \<and> normalizeHex v = Some v"
proof -
  have "isValidHex s" using assms by (auto simp: normalizeHex_def split: if_splits)
  then obtain ds where ds: "s = ds \<or> s = CHR ''#'' # ds" "length ds = 3 \<or> length ds = 6"
    "list_all isHexDigit ds" unfolding isValidHex_iff by blast
  let ?e = "if length ds = 3 then concat (map (\<lambda>ch. [ch, ch]) ds) else ds"
  have v_eq: "v = toUpperCase ?e"
    using normalizeHex_plain [OF ds(3) ds(2) ds(1)] assms by simp
  have len_e: "length ?e = 6"
  proof (cases "length ds = 3")
    case True
    then obtain a b c where "ds = [a, b, c]"
      by (cases ds; cases "tl ds"; cases "tl (tl ds)") auto
    then show ?thesis by simp
  next
    case False
    with ds(2) show ?thesis by simp
  qed
  have hex_e: "list_all isHexDigit ?e"
    using ds(3) by (auto simp: list_all_iff)
  have up: "list_all isUpperHexDigit v" "toUpperCase v = v"
    using toUpperCase_hex [OF hex_e] v_eq by simp_all
  have hex_v: "list_all isHexDigit v"
    using up(1) upper_hex_is_hex by (auto simp: list_all_iff)
  have len_v: "length v = 6"
    using len_e v_eq by (simp add: length_toUpperCase)
  have "normalizeHex v = Some (toUpperCase (if length v = 3
          then concat (map (\<lambda>ch. [ch, ch]) v) else v))"
    using hex_v len_v by (intro normalizeHex_plain) auto
  then have "normalizeHex v = Some v"
    using len_v up(2) by simp
  moreover have "isValidHex v"
    using hex_v len_v isValidHex_iff by blast
  ultimately show ?thesis by simp
qed

theorem normalizeHex_idempotent_witness:
  "normalizeHex ''#abc'' = Some ''AABBCC'' \<and> isValidHex ''AABBCC''
   \<and> normalizeHex ''AABBCC'' = Some ''AABBCC''"
proof -
  have n: "normalizeHex ''#abc'' = Some ''AABBCC''"
    by (simp add: normalizeHex_def isValidHex_def startsWithHash_def isHexDigit_def
        toUpperCase_def toUpperChar_def)
  from normalizeHex_idempotent [OF n] n show ?thesis by simp
qed

section \<open>The search loop\<close>

text \<open>
  A rule for the loop, in the manner of a Hoare rule for \<^verbatim>\<open>while\<close>: \<open>I\<close> holds at the start and
  is kept by every pass that goes on, whether the midpoint meets the target or not; \<open>Q\<close>
  follows from \<open>I\<close> where the loop condition fails and where the loop is left by
  \<^verbatim>\<open>break\<close>. Then \<open>Q\<close> holds of the state in which the loop stops.
\<close>

lemma searchLoop_rule:
  assumes inv0: "I st"
    and pass: "\<And>s hexs. I s \<Longrightarrow> iterations s < MAX_ITERATIONS \<Longrightarrow>
        high s - low s > LIGHTNESS_PRECISION \<Longrightarrow>
        formatHex lib (fg\<lparr>oklch_l := (low s + high s) / 2\<rparr>) = Some hexs \<Longrightarrow> hexs \<noteq> [] \<Longrightarrow>
        wcagContrast lib hexs bgColor \<ge> targetRatio \<Longrightarrow>
        I (if shouldDarken
           then s\<lparr>iterations := iterations s + 1,
                  bestColor := Some (fg\<lparr>oklch_l := (low s + high s) / 2\<rparr>),
                  low := (low s + high s) / 2\<rparr>
           else s\<lparr>iterations := iterations s + 1,
                  bestColor := Some (fg\<lparr>oklch_l := (low s + high s) / 2\<rparr>),
                  high := (low s + high s) / 2\<rparr>)"
    and fail: "\<And>s hexs. I s \<Longrightarrow> iterations s < MAX_ITERATIONS \<Longrightarrow>
        high s - low s > LIGHTNESS_PRECISION \<Longrightarrow>
        formatHex lib (fg\<lparr>oklch_l := (low s + high s) / 2\<rparr>) = Some hexs \<Longrightarrow> hexs \<noteq> [] \<Longrightarrow>
        \<not> wcagContrast lib hexs bgColor \<ge> targetRatio \<Longrightarrow>
        I (if shouldDarken
           then s\<lparr>iterations := iterations s + 1, high := (low s + high s) / 2\<rparr>
           else s\<lparr>iterations := iterations s + 1, low := (low s + high s) / 2\<rparr>)"
    and stop: "\<And>s. I s \<Longrightarrow>
        \<not> (iterations s < MAX_ITERATIONS \<and> high s - low s > LIGHTNESS_PRECISION) \<Longrightarrow> Q s"
    and brk: "\<And>s. I s \<Longrightarrow> iterations s < MAX_ITERATIONS \<Longrightarrow>
        high s - low s > LIGHTNESS_PRECISION \<Longrightarrow>
        formatHex lib (fg\<lparr>oklch_l := (low s + high s) / 2\<rparr>) \<in> {None, Some []} \<Longrightarrow>
        Q (s\<lparr>iterations := iterations s + 1\<rparr>)"
  shows "Q (searchLoop lib fg bgColor targetRatio shouldDarken st)"
  using inv0 pass fail stop brk
proof (induction lib fg bgColor targetRatio shouldDarken st rule: searchLoop.induct)
  case (1 lib fg bgColor targetRatio shouldDarken st)
  note inv = "1.prems"(1) and pass = "1.prems"(2) and fail = "1.prems"(3)
    and stop = "1.prems"(4) and brk = "1.prems"(5)
  show ?case
  proof (cases "iterations st < MAX_ITERATIONS \<and> high st - low st > LIGHTNESS_PRECISION")
    case False
    then have "searchLoop lib fg bgColor targetRatio shouldDarken st = st"
      using False by (subst searchLoop.simps) auto
    with False inv stop show ?thesis by simp
  next
    case True
    let ?mid = "(low st + high st) / 2"
    let ?tc = "fg\<lparr>oklch_l := ?mid\<rparr>"
    let ?st1 = "st\<lparr>iterations := iterations st + 1\<rparr>"
    show ?thesis
    proof (cases "formatHex lib ?tc")
      case None
      then have "searchLoop lib fg bgColor targetRatio shouldDarken st = ?st1"
        using True by (subst searchLoop.simps) (simp add: Let_def)
      moreover have "formatHex lib ?tc \<in> {None, Some []}"
        using None by simp
      then have "Q ?st1"
        using True by (intro brk [OF inv]) simp_all
      ultimately show ?thesis by simp
    next
      case (Some hexs)
      show ?thesis
      proof (cases "hexs = []")
        case empty: True
        then have "searchLoop lib fg bgColor targetRatio shouldDarken st = ?st1"
          using True Some by (subst searchLoop.simps) (simp add: Let_def)
        moreover have "formatHex lib ?tc \<in> {None, Some []}"
          using Some empty by simp
        then have "Q ?st1"
          using True by (intro brk [OF inv]) simp_all
        ultimately show ?thesis by simp
      next
        case nonempty: False
        show ?thesis
        proof (cases "wcagContrast lib hexs bgColor \<ge> targetRatio")
          case good: True
          let ?nxt = "if shouldDarken then ?st1\<lparr>bestColor := Some ?tc, low := ?mid\<rparr>
                      else ?st1\<lparr>bestColor := Some ?tc, high := ?mid\<rparr>"
          have eq: "searchLoop lib fg bgColor targetRatio shouldDarken st =
                    searchLoop lib fg bgColor targetRatio shouldDarken ?nxt"
            using True Some nonempty good by (subst searchLoop.simps) (simp add: Let_def)
          have "I ?nxt"
            using pass [OF inv _ _ Some nonempty good] True by simp
          then have "Q (searchLoop lib fg bgColor targetRatio shouldDarken ?nxt)"
            using "1.IH"(1) [OF True refl refl refl Some nonempty good _ pass fail stop brk] by simp
          with eq show ?thesis by simp
        next
          case bad: False
          let ?nxt = "if shouldDarken then ?st1\<lparr>high := ?mid\<rparr> else ?st1\<lparr>low := ?mid\<rparr>"
          have eq: "searchLoop lib fg bgColor targetRatio shouldDarken st =
                    searchLoop lib fg bgColor targetRatio shouldDarken ?nxt"
            using True Some nonempty bad by (subst searchLoop.simps) (simp add: Let_def)
          have "I ?nxt"
            using fail [OF inv _ _ Some nonempty bad] True by simp
          then have "Q (searchLoop lib fg bgColor targetRatio shouldDarken ?nxt)"
            using "1.IH"(2) [OF True refl refl refl Some nonempty bad _ pass fail stop brk] by simp
          with eq show ?thesis by simp
        qed
      qed
    qed
  qed
qed

lemma searchLoop_best:
  assumes "\<forall>col. bestColor st = Some col \<longrightarrow>
     (\<exists>s. formatHex lib col = Some s \<and> s \<noteq> [] \<and> wcagContrast lib s bgColor \<ge> targetRatio)"
  shows "\<forall>col. bestColor (searchLoop lib fg bgColor targetRatio shouldDarken st) = Some col \<longrightarrow>
     (\<exists>s. formatHex lib col = Some s \<and> s \<noteq> [] \<and> wcagContrast lib s bgColor \<ge> targetRatio)"
  by (rule searchLoop_rule [where I = "\<lambda>st. \<forall>col. bestColor st = Some col \<longrightarrow>
     (\<exists>s. formatHex lib col = Some s \<and> s \<noteq> [] \<and> wcagContrast lib s bgColor \<ge> targetRatio)"])
     (use assms in auto)

lemma searchLoop_range:
  assumes "lo \<le> low st" and "high st \<le> hi"
    and "\<forall>col. bestColor st = Some col \<longrightarrow>
           (\<exists>m. col = fg\<lparr>oklch_l := m\<rparr> \<and> lo < m \<and> m < hi)"
  shows "\<forall>col. bestColor (searchLoop lib fg bgColor targetRatio shouldDarken st) = Some col \<longrightarrow>
           (\<exists>m. col = fg\<lparr>oklch_l := m\<rparr> \<and> lo < m \<and> m < hi)"
  by (rule searchLoop_rule [where I = "\<lambda>st. lo \<le> low st \<and> high st \<le> hi \<and>
        (\<forall>col. bestColor st = Some col \<longrightarrow> (\<exists>m. col = fg\<lparr>oklch_l := m\<rparr> \<and> lo < m \<and> m < hi))"])
     (use assms in \<open>auto simp: LIGHTNESS_PRECISION_def\<close>)

lemma searchLightness_best:
  assumes "searchLightness lib fg bgColor targetRatio shouldDarken = Some r"
  shows "\<exists>s. formatHex lib r = Some s \<and> s \<noteq> [] \<and> wcagContrast lib s bgColor \<ge> targetRatio"
  using assms searchLoop_best [where st = "searchStart fg shouldDarken" and lib = lib
      and bgColor = bgColor and targetRatio = targetRatio and fg = fg
      and shouldDarken = shouldDarken]
  by (simp add: searchLightness_def searchStart_def)

lemma searchLightness_range:
  assumes "searchLightness lib fg bgColor targetRatio shouldDarken = Some r"
  shows "\<exists>m. r = fg\<lparr>oklch_l := m\<rparr> \<and>
           (if shouldDarken then 0 < m \<and> m < oklch_l fg else oklch_l fg < m \<and> m < 1)"
proof -
  let ?st = "searchStart fg shouldDarken"
  have "\<forall>col. bestColor (searchLoop lib fg bgColor targetRatio shouldDarken ?st) = Some col \<longrightarrow>
           (\<exists>m. col = fg\<lparr>oklch_l := m\<rparr> \<and> low ?st < m \<and> m < high ?st)"
    by (rule searchLoop_range) (simp_all add: searchStart_def)
  with assms show ?thesis
    by (auto simp: searchLightness_def searchStart_def split: if_splits)
qed

lemma hexContract_output:
  assumes "hexContract lib" and "formatHex lib r = Some s" and "s \<noteq> []"
  shows "wcagContrast lib (CHR ''#'' # toUpperCase (remove1 CHR ''#'' s)) b = wcagContrast lib s b"
proof -
  from assms have hd: "hd s = CHR ''#''"
    and up: "wcagContrast lib (toUpperCase s) b = wcagContrast lib s b"
    unfolding hexContract_def by blast+
  from hd assms(3) obtain rest where s: "s = CHR ''#'' # rest" by (cases s) auto
  have "CHR ''#'' # toUpperCase (remove1 CHR ''#'' s) = toUpperCase s"
    by (simp add: s toUpperCase_def toUpperChar_hash)
  with up show ?thesis by simp
qed

lemma calculateContrast_near:
  "calculateContrast lib fg bg \<ge> wcagContrast lib (CHR ''#'' # fg) (CHR ''#'' # bg) - 1 / 200"
  unfolding calculateContrast_def Let_def js_round_def by linarith

section \<open>Counting the entries of the matrix\<close>









section \<open>Bounds of the WCAG ratio\<close>






lemma contrastOfLuminances_commute:
  "contrastOfLuminances L1 L2 = contrastOfLuminances L2 L1"
  by (simp add: contrastOfLuminances_def max.commute min.commute)


section \<open>Runs of the small instance\<close>

lemma parse_black: "parseHexColor ''#000000'' = Some (0, 0, 0)"
  by (simp add: parseHexColor_def isHexDigit_def hexDigitValue_def)

lemma parse_white: "parseHexColor ''#FFFFFF'' = Some (255, 255, 255)"
  by (simp add: parseHexColor_def isHexDigit_def hexDigitValue_def)

lemma parse_white_lower: "parseHexColor ''#ffffff'' = Some (255, 255, 255)"
  by (simp add: parseHexColor_def isHexDigit_def hexDigitValue_def)

lemma luminance_black: "relativeLuminance (0, 0, 0) = 0"
  by (simp add: relativeLuminance_def linearChannel_def)

lemma luminance_white: "relativeLuminance (255, 255, 255) = 1"
  by (simp add: relativeLuminance_def linearChannel_def)

lemmas bw_facts = parse_black parse_white parse_white_lower luminance_black luminance_white

lemma contrast_bw:
  "wcagContrastSpec ''#000000'' ''#FFFFFF'' = 21"
  "wcagContrastSpec ''#FFFFFF'' ''#FFFFFF'' = 1"
  "wcagContrastSpec ''#ffffff'' ''#FFFFFF'' = 1"
  "wcagContrastSpec ''#ffffff'' ''#000000'' = 21"
  "wcagContrastSpec ''#FFFFFF'' ''#000000'' = 21"
  by (simp_all add: wcagContrastSpec_def contrastOfLuminances_def bw_facts)

lemma upper_bw:
  "toUpperCase ''#000000'' = ''#000000''" "toUpperCase ''#ffffff'' = ''#FFFFFF''"
  "toUpperCase ''000000'' = ''000000''" "toUpperCase ''ffffff'' = ''FFFFFF''"
  by (simp_all add: toUpperCase_def toUpperChar_def)

lemma parse_yellow: "parseHexColor ''#FFFF00'' = Some (255, 255, 0)"
  by (simp add: parseHexColor_def isHexDigit_def hexDigitValue_def)

lemma luminance_yellow: "relativeLuminance (255, 255, 0) = 9278 / 10000"
  by (simp add: relativeLuminance_def linearChannel_def)

lemma contrast_yellow:
  "wcagContrastSpec ''#FFFF00'' ''#FFFFFF'' = 10500 / 9778"
  "wcagContrastSpec ''#FFFFFF'' ''#FFFF00'' = 10500 / 9778"
  "wcagContrastSpec ''#ffffff'' ''#FFFF00'' = 10500 / 9778"
  "wcagContrastSpec ''#000000'' ''#FFFF00'' = 9778 / 500"
  by (simp_all add: wcagContrastSpec_def contrastOfLuminances_def bw_facts parse_yellow
      luminance_yellow)

lemma twoTone_oklch:
  "oklch twoTone ''#FFFFFF'' = Some white"
  "oklch twoTone ''#ffffff'' = Some white"
  "oklch twoTone ''#FFFF00'' = Some yellow"
  by (simp_all add: twoTone_def twoToneOklch_def bw_facts parse_yellow luminance_yellow
      white_def yellow_def)

lemma twoTone_fields:
  "formatHex twoTone = twoToneFormatHex" "wcagContrast twoTone = wcagContrastSpec"
  by (simp_all add: twoTone_def)

lemmas run_simps = LIGHTNESS_PRECISION_def MAX_ITERATIONS_def twoTone_fields
  twoToneFormatHex_def contrast_bw contrast_yellow Let_def white_def yellow_def

lemma twoTone_lightness: "oklch_l white = 1" "oklch_l yellow = 9278 / 10000"
  by (simp_all add: white_def yellow_def)

lemma loop_white_on_yellow:
  "searchLoop twoTone white ''#FFFF00'' (9 / 2) True (searchStart white True)
   = \<lparr>low = 511 / 1024, high = 1 / 2, bestColor = Some (white\<lparr>oklch_l := 511 / 1024\<rparr>),
      iterations = 10\<rparr>"
  apply (simp add: searchStart_def white_def)
  apply (subst searchLoop.simps, simp add: run_simps)
  apply (subst searchLoop.simps, simp add: run_simps)
  apply (subst searchLoop.simps, simp add: run_simps)
  apply (subst searchLoop.simps, simp add: run_simps)
  apply (subst searchLoop.simps, simp add: run_simps)
  apply (subst searchLoop.simps, simp add: run_simps)
  apply (subst searchLoop.simps, simp add: run_simps)
  apply (subst searchLoop.simps, simp add: run_simps)
  apply (subst searchLoop.simps, simp add: run_simps)
  apply (subst searchLoop.simps, simp add: run_simps)
  apply (subst searchLoop.simps, simp add: run_simps)
  done

lemma loop_yellow_lighten:
  "searchLoop twoTone yellow ''#FFFFFF'' (9 / 2) False (searchStart yellow False)
     = \<lparr>low = 639639 / 640000, high = 1, bestColor = None, iterations = 7\<rparr>"
  apply (simp add: searchStart_def yellow_def)
  apply (subst searchLoop.simps, simp add: run_simps)
  apply (subst searchLoop.simps, simp add: run_simps)
  apply (subst searchLoop.simps, simp add: run_simps)
  apply (subst searchLoop.simps, simp add: run_simps)
  apply (subst searchLoop.simps, simp add: run_simps)
  apply (subst searchLoop.simps, simp add: run_simps)
  apply (subst searchLoop.simps, simp add: run_simps)
  apply (subst searchLoop.simps, simp add: run_simps)
  done

lemma loop_yellow_darken:
  "searchLoop twoTone yellow ''#FFFFFF'' (9 / 2) True (searchStart yellow True)
     = \<lparr>low = 2556089 / 5120000, high = 320091 / 640000,
        bestColor = Some (yellow\<lparr>oklch_l := 2556089 / 5120000\<rparr>), iterations = 10\<rparr>"
  apply (simp add: searchStart_def yellow_def)
  apply (subst searchLoop.simps, simp add: run_simps)
  apply (subst searchLoop.simps, simp add: run_simps)
  apply (subst searchLoop.simps, simp add: run_simps)
  apply (subst searchLoop.simps, simp add: run_simps)
  apply (subst searchLoop.simps, simp add: run_simps)
  apply (subst searchLoop.simps, simp add: run_simps)
  apply (subst searchLoop.simps, simp add: run_simps)
  apply (subst searchLoop.simps, simp add: run_simps)
  apply (subst searchLoop.simps, simp add: run_simps)
  apply (subst searchLoop.simps, simp add: run_simps)
  apply (subst searchLoop.simps, simp add: run_simps)
  done

lemma search_yellow_on_white:
  "searchLightness twoTone yellow ''#FFFFFF'' (9 / 2) False = None"
  "searchLightness twoTone yellow ''#FFFFFF'' (9 / 2) True
     = Some (yellow\<lparr>oklch_l := 2556089 / 5120000\<rparr>)"
  by (simp_all add: searchLightness_def loop_yellow_lighten loop_yellow_darken)

lemma search_white_on_yellow:
  "searchLightness twoTone white ''#FFFF00'' (9 / 2) True
     = Some (white\<lparr>oklch_l := 511 / 1024\<rparr>)"
  by (simp add: searchLightness_def loop_white_on_yellow)

lemma find_yellow_on_white:
  "findNearestAccessible twoTone ''FFFF00'' ''FFFFFF'' (9 / 2) = Some ''000000''"
  by (simp add: findNearestAccessible_def twoTone_oklch twoTone_fields contrast_yellow
      twoTone_lightness search_yellow_on_white twoToneFormatHex_def upper_bw)

lemma find_white_on_yellow:
  "findNearestAccessible twoTone ''FFFFFF'' ''FFFF00'' (9 / 2) = Some ''000000''"
  by (simp add: findNearestAccessible_def twoTone_oklch twoTone_fields contrast_yellow
      twoTone_lightness search_white_on_yellow twoToneFormatHex_def upper_bw)

lemma hexContract_twoTone: "hexContract twoTone"
proof -
  have "wcagContrastSpec ''#FFFFFF'' b = wcagContrastSpec ''#ffffff'' b" for b
    by (simp add: wcagContrastSpec_def bw_facts)
  then show ?thesis
    by (auto simp: hexContract_def twoTone_fields twoToneFormatHex_def upper_bw)
qed

lemma calculateContrast_examples:
  "calculateContrast twoTone ''000000'' ''FFFFFF'' = 21"
  "calculateContrast twoTone ''FFFFFF'' ''000000'' = 21"
  "calculateContrast twoTone ''FFFFFF'' ''FFFFFF'' = 1"
  "calculateContrast twoTone ''FFFF00'' ''FFFFFF'' = 107 / 100"
  by (simp_all add: calculateContrast_def twoTone_fields contrast_bw contrast_yellow js_round_def)

lemma hex_digits_examples:
  "list_all isHexDigit ''000000''" "list_all isHexDigit ''FFFFFF''"
  by (simp_all add: isHexDigit_def)

section \<open>The nearest accessible colour\<close>

text \<open>
  C1. Fix validity. Whenever \<open>findNearestAccessible\<close> returns a hex, the contrast of that hex
  against the background, as the library measures it, is at least the target ratio; the
  ratio rounded to two decimals, which \<open>calculateContrast\<close> reports, is below the target by
  at most half a hundredth. The returned string is the string the loop tested, so a colour
  that was clamped on conversion is measured after the clamping.
\<close>

theorem findNearestAccessible_valid:
  assumes "hexContract lib" and "findNearestAccessible lib fg bg t = Some h"
  shows "wcagContrast lib (CHR ''#'' # h) (CHR ''#'' # bg) \<ge> t \<and>
         calculateContrast lib h bg \<ge> t - 1 / 200"
proof -
  have main: "wcagContrast lib (CHR ''#'' # h) (CHR ''#'' # bg) \<ge> t"
  proof -
    from assms(2) obtain f where f: "oklch lib (CHR ''#'' # fg) = Some f"
      by (auto simp: findNearestAccessible_def Let_def split: option.splits)
    show ?thesis
    proof (cases "wcagContrast lib (CHR ''#'' # fg) (CHR ''#'' # bg) \<ge> t")
      case True
      with assms(2) f have "h = fg"
        by (simp add: findNearestAccessible_def Let_def)
      with True show ?thesis by simp
    next
      case False
      with assms(2) f obtain d r s where
        r: "searchLightness lib f (CHR ''#'' # bg) t d = Some r"
        and s: "formatHex lib r = Some s" "s \<noteq> []"
        and h: "h = toUpperCase (remove1 CHR ''#'' s)"
        by (auto simp: findNearestAccessible_def Let_def split: option.splits if_splits)
      from searchLightness_best [OF r] s
      have "wcagContrast lib s (CHR ''#'' # bg) \<ge> t" by auto
      then show ?thesis
        using hexContract_output [OF assms(1) s, of "CHR ''#'' # bg"] h by simp
    qed
  qed
  with calculateContrast_near [of lib h bg] show ?thesis by linarith
qed

theorem findNearestAccessible_valid_witness:
  "hexContract twoTone
   \<and> findNearestAccessible twoTone ''FFFF00'' ''FFFFFF'' (45 / 10) = Some ''000000''
   \<and> wcagContrast twoTone ''#000000'' ''#FFFFFF'' \<ge> 45 / 10
   \<and> calculateContrast twoTone ''000000'' ''FFFFFF'' \<ge> 45 / 10 - 1 / 200"
proof -
  have f: "findNearestAccessible twoTone ''FFFF00'' ''FFFFFF'' (45 / 10) = Some ''000000''"
    using find_yellow_on_white by simp
  from findNearestAccessible_valid [OF hexContract_twoTone f] hexContract_twoTone f
  show ?thesis by simp
qed

text \<open>
  C2, as the code has it. When the foreground is a colour the library reads and its ratio
  against the background is already at least the target, \<open>findNearestAccessible\<close> returns the
  foreground string itself, unchanged. That is the normalised form exactly when the
  foreground is already normalised: a six-digit lower-case foreground comes back in lower
  case.
\<close>

theorem findNearestAccessible_passing:
  assumes "oklch lib (CHR ''#'' # fg) = Some f"
    and "wcagContrast lib (CHR ''#'' # fg) (CHR ''#'' # bg) \<ge> t"
  shows "findNearestAccessible lib fg bg t = Some fg \<and>
         (findNearestAccessible lib fg bg t = normalizeHex fg \<longleftrightarrow> normalizeHex fg = Some fg)"
  using assms by (auto simp: findNearestAccessible_def Let_def)

theorem findNearestAccessible_passing_witness:
  "oklch twoTone ''#FFFFFF'' = Some white
   \<and> wcagContrast twoTone ''#FFFFFF'' ''#000000'' \<ge> 45 / 10
   \<and> findNearestAccessible twoTone ''FFFFFF'' ''000000'' (45 / 10) = Some ''FFFFFF''
   \<and> findNearestAccessible twoTone ''FFFFFF'' ''000000'' (45 / 10) = normalizeHex ''FFFFFF''"
proof -
  have o: "oklch twoTone (CHR ''#'' # ''FFFFFF'') = Some white"
    using twoTone_oklch(1) by simp
  have w: "wcagContrast twoTone (CHR ''#'' # ''FFFFFF'') (CHR ''#'' # ''000000'') \<ge> 45 / 10"
    by (simp add: twoTone_fields contrast_bw)
  have n: "normalizeHex ''FFFFFF'' = Some ''FFFFFF''"
    by (simp add: normalizeHex_def isValidHex_def startsWithHash_def isHexDigit_def
        toUpperCase_def toUpperChar_def)
  from findNearestAccessible_passing [OF o w] o w n show ?thesis by simp
qed

theorem findNearestAccessible_passing_counterexample:
  "wcagContrast twoTone ''#ffffff'' ''#000000'' \<ge> 45 / 10
   \<and> findNearestAccessible twoTone ''ffffff'' ''000000'' (45 / 10) = Some ''ffffff''
   \<and> normalizeHex ''ffffff'' = Some ''FFFFFF''
   \<and> findNearestAccessible twoTone ''ffffff'' ''000000'' (45 / 10) \<noteq> normalizeHex ''ffffff''"
proof -
  have w: "wcagContrast twoTone ''#ffffff'' ''#000000'' \<ge> 45 / 10"
    by (simp add: twoTone_fields contrast_bw)
  have f: "findNearestAccessible twoTone ''ffffff'' ''000000'' (45 / 10) = Some ''ffffff''"
    by (simp add: findNearestAccessible_def twoTone_oklch twoTone_fields contrast_bw)
  have n: "normalizeHex ''ffffff'' = Some ''FFFFFF''"
    by (simp add: normalizeHex_def isValidHex_def startsWithHash_def isHexDigit_def
        toUpperCase_def toUpperChar_def)
  from w f n show ?thesis by simp
qed

text \<open>
  C6. Search direction. For a failing pair of colours that the library reads, the first
  search darkens exactly when the foreground's lightness is strictly greater than the
  background's and lightens otherwise; the result of the opposite search is used only when
  the first search has no candidate. A candidate of the darkening search keeps the
  foreground's other components and has a lightness strictly between 0 and the
  foreground's; a candidate of the lightening search one strictly between the foreground's
  and 1.
\<close>

theorem findNearestAccessible_direction:
  assumes "oklch lib (CHR ''#'' # fgHex) = Some fg"
    and "oklch lib (CHR ''#'' # bgHex) = Some bg"
    and "wcagContrast lib (CHR ''#'' # fgHex) (CHR ''#'' # bgHex) < t"
  shows "(let darken = (oklch_l fg > oklch_l bg);
              primary = searchLightness lib fg (CHR ''#'' # bgHex) t darken;
              opposite = searchLightness lib fg (CHR ''#'' # bgHex) t (\<not> darken);
              out = (\<lambda>r. case formatHex lib r of
                            None \<Rightarrow> None
                          | Some s \<Rightarrow> if s = [] then None
                                      else Some (toUpperCase (remove1 CHR ''#'' s)))
          in findNearestAccessible lib fgHex bgHex t =
               (case primary of
                  Some r \<Rightarrow> out r
                | None \<Rightarrow> (case opposite of Some r \<Rightarrow> out r | None \<Rightarrow> None)))
         \<and> (\<forall>r. searchLightness lib fg (CHR ''#'' # bgHex) t True = Some r \<longrightarrow>
               (\<exists>m. r = fg\<lparr>oklch_l := m\<rparr> \<and> 0 < m \<and> m < oklch_l fg))
         \<and> (\<forall>r. searchLightness lib fg (CHR ''#'' # bgHex) t False = Some r \<longrightarrow>
               (\<exists>m. r = fg\<lparr>oklch_l := m\<rparr> \<and> oklch_l fg < m \<and> m < 1))"
proof (intro conjI allI impI)
  show "let darken = (oklch_l fg > oklch_l bg);
              primary = searchLightness lib fg (CHR ''#'' # bgHex) t darken;
              opposite = searchLightness lib fg (CHR ''#'' # bgHex) t (\<not> darken);
              out = (\<lambda>r. case formatHex lib r of
                            None \<Rightarrow> None
                          | Some s \<Rightarrow> if s = [] then None
                                      else Some (toUpperCase (remove1 CHR ''#'' s)))
          in findNearestAccessible lib fgHex bgHex t =
               (case primary of
                  Some r \<Rightarrow> out r
                | None \<Rightarrow> (case opposite of Some r \<Rightarrow> out r | None \<Rightarrow> None))"
    using assms by (simp add: findNearestAccessible_def Let_def split: option.splits)
next
  fix r assume "searchLightness lib fg (CHR ''#'' # bgHex) t True = Some r"
  from searchLightness_range [OF this]
  show "\<exists>m. r = fg\<lparr>oklch_l := m\<rparr> \<and> 0 < m \<and> m < oklch_l fg" by simp
next
  fix r assume "searchLightness lib fg (CHR ''#'' # bgHex) t False = Some r"
  from searchLightness_range [OF this]
  show "\<exists>m. r = fg\<lparr>oklch_l := m\<rparr> \<and> oklch_l fg < m \<and> m < 1" by simp
qed

theorem findNearestAccessible_direction_witness:
  "oklch twoTone ''#FFFFFF'' = Some white \<and> oklch twoTone ''#FFFF00'' = Some yellow
   \<and> wcagContrast twoTone ''#FFFFFF'' ''#FFFF00'' < 45 / 10
   \<and> oklch_l white > oklch_l yellow
   \<and> searchLightness twoTone white ''#FFFF00'' (45 / 10) True
        = Some (white\<lparr>oklch_l := 511 / 1024\<rparr>)
   \<and> findNearestAccessible twoTone ''FFFFFF'' ''FFFF00'' (45 / 10) = Some ''000000''
   \<and> searchLightness twoTone yellow ''#FFFFFF'' (45 / 10) False = None
   \<and> searchLightness twoTone yellow ''#FFFFFF'' (45 / 10) True
        = Some (yellow\<lparr>oklch_l := 2556089 / 5120000\<rparr>)
   \<and> findNearestAccessible twoTone ''FFFF00'' ''FFFFFF'' (45 / 10) = Some ''000000''"
proof -
  have w: "oklch twoTone (CHR ''#'' # ''FFFFFF'') = Some white"
    and y: "oklch twoTone (CHR ''#'' # ''FFFF00'') = Some yellow"
    using twoTone_oklch by simp_all
  have r1: "wcagContrast twoTone (CHR ''#'' # ''FFFFFF'') (CHR ''#'' # ''FFFF00'') < 45 / 10"
    and r2: "wcagContrast twoTone (CHR ''#'' # ''FFFF00'') (CHR ''#'' # ''FFFFFF'') < 45 / 10"
    by (simp_all add: twoTone_fields contrast_yellow)
  have "findNearestAccessible twoTone ''FFFFFF'' ''FFFF00'' (45 / 10) = Some ''000000''"
    using findNearestAccessible_direction [OF w y r1]
    by (simp add: Let_def twoTone_lightness search_white_on_yellow twoTone_fields
        twoToneFormatHex_def upper_bw)
  moreover have "findNearestAccessible twoTone ''FFFF00'' ''FFFFFF'' (45 / 10) = Some ''000000''"
    using findNearestAccessible_direction [OF y w r2]
    by (simp add: Let_def twoTone_lightness search_yellow_on_white twoTone_fields
        twoToneFormatHex_def upper_bw)
  ultimately show ?thesis
    using w y r1 by (simp add: twoTone_lightness search_white_on_yellow search_yellow_on_white)
qed

text \<open>
  C7. Termination of the lightness search. \<open>searchLoop\<close> is a total' function: each pass
  increases \<open>iterations\<close>, which is bounded by \<open>MAX_ITERATIONS\<close> (its termination proof).
  The state in which the loop stops has run at most \<open>MAX_ITERATIONS = 50\<close> passes, and it
  has run exactly 50, or its bounds are at most \<open>LIGHTNESS_PRECISION\<close> apart, or
  \<^verbatim>\<open>formatHex\<close> gave nothing for its midpoint and the loop was left by \<^verbatim>\<open>break\<close>.
\<close>

theorem searchLightness_terminates:
  "iterations (searchLoop lib fg bgColor targetRatio shouldDarken (searchStart fg shouldDarken))
     \<le> MAX_ITERATIONS \<and>
   (iterations (searchLoop lib fg bgColor targetRatio shouldDarken (searchStart fg shouldDarken))
      = MAX_ITERATIONS
    \<or> high (searchLoop lib fg bgColor targetRatio shouldDarken (searchStart fg shouldDarken))
        - low (searchLoop lib fg bgColor targetRatio shouldDarken (searchStart fg shouldDarken))
        \<le> LIGHTNESS_PRECISION
    \<or> formatHex lib (fg\<lparr>oklch_l :=
          (low (searchLoop lib fg bgColor targetRatio shouldDarken (searchStart fg shouldDarken))
           + high (searchLoop lib fg bgColor targetRatio shouldDarken
                     (searchStart fg shouldDarken))) / 2\<rparr>)
        \<in> {None, Some []})"
proof -
  let ?bounded = "\<lambda>s. iterations s \<le> MAX_ITERATIONS"
  let ?stopped = "\<lambda>s. iterations s \<le> MAX_ITERATIONS \<and>
     (iterations s = MAX_ITERATIONS
      \<or> high s - low s \<le> LIGHTNESS_PRECISION
      \<or> formatHex lib (fg\<lparr>oklch_l := (low s + high s) / 2\<rparr>) \<in> {None, Some []})"
  have "?stopped (searchLoop lib fg bgColor targetRatio shouldDarken (searchStart fg shouldDarken))"
  proof (rule searchLoop_rule [where I = ?bounded])
    show "?bounded (searchStart fg shouldDarken)"
      by (simp add: searchStart_def)
  next
    fix s
    assume "?bounded s"
      and "\<not> (iterations s < MAX_ITERATIONS \<and> LIGHTNESS_PRECISION < high s - low s)"
    then show "?stopped s" by auto
  next
    fix s
    assume "?bounded s" and "iterations s < MAX_ITERATIONS"
      and "formatHex lib (fg\<lparr>oklch_l := (low s + high s) / 2\<rparr>) \<in> {None, Some []}"
    then show "?stopped (s\<lparr>iterations := iterations s + 1\<rparr>)" by auto
  qed auto
  then show ?thesis by simp
qed

theorem searchLightness_terminates_witness:
  "iterations (searchLoop twoTone white ''#FFFF00'' (45 / 10) True (searchStart white True))
     \<le> MAX_ITERATIONS
   \<and> iterations (searchLoop twoTone white ''#FFFF00'' (45 / 10) True (searchStart white True))
       = 10
   \<and> high (searchLoop twoTone white ''#FFFF00'' (45 / 10) True (searchStart white True))
       - low (searchLoop twoTone white ''#FFFF00'' (45 / 10) True (searchStart white True))
       \<le> LIGHTNESS_PRECISION"
  using searchLightness_terminates [of twoTone white "''#FFFF00''" "45 / 10" True]
  by (simp add: loop_white_on_yellow LIGHTNESS_PRECISION_def)

section \<open>Contrast results and the matrix\<close>

text \<open>
  C3. Suggestion nullability. The \<open>suggestedFix\<close> of a result is the outcome of the search,
  with target 4.5 for AA and 7 for AAA, when the pair fails the normal-text flag of the
  target level and the two ids differ; in every other case it is null. The flags compare
  the rounded ratio with 4.5 and 7.
\<close>

theorem calculateContrastResult_suggestion:
  "(let res = calculateContrastResult lib fgId fgHex bgId bgHex level;
        passes = (if level = AA then passesAA res else passesAAA res)
    in suggestedFix res =
         (if \<not> passes \<and> fgId \<noteq> bgId
          then findNearestAccessible lib fgHex bgHex (if level = AA then 45 / 10 else 7)
          else None)
       \<and> passesAA res = (calculateContrast lib fgHex bgHex \<ge> 45 / 10)
       \<and> passesAAA res = (calculateContrast lib fgHex bgHex \<ge> 7))"
  by (simp add: calculateContrastResult_def evaluateContrastRatio_def getTargetRatio_def
      AA_NORMAL_def AAA_NORMAL_def Let_def)

theorem calculateContrastResult_suggestion_witness:
  "suggestedFix (calculateContrastResult twoTone ''a'' ''FFFF00'' ''b'' ''FFFFFF'' AA)
     = Some ''000000''
   \<and> suggestedFix (calculateContrastResult twoTone ''a'' ''FFFF00'' ''a'' ''FFFFFF'' AA) = None
   \<and> suggestedFix (calculateContrastResult twoTone ''a'' ''000000'' ''b'' ''FFFFFF'' AA) = None
   \<and> suggestedFix (calculateContrastResult twoTone ''a'' ''000000'' ''b'' ''FFFFFF'' AAA) = None"
  using calculateContrastResult_suggestion [of twoTone "''a''" "''FFFF00''" "''b''" "''FFFFFF''" AA]
    calculateContrastResult_suggestion [of twoTone "''a''" "''FFFF00''" "''a''" "''FFFFFF''" AA]
    calculateContrastResult_suggestion [of twoTone "''a''" "''000000''" "''b''" "''FFFFFF''" AA]
    calculateContrastResult_suggestion [of twoTone "''a''" "''000000''" "''b''" "''FFFFFF''" AAA]
  by (simp add: Let_def calculateContrast_examples find_yellow_on_white)



text \<open>
  C8. Symmetry. With the library computing the WCAG ratio, \<open>calculateContrast\<close> gives the
  same value for a pair of six-digit hex colours in either order.
\<close>

theorem calculateContrast_symmetric:
  assumes "wcagContrast lib = wcagContrastSpec"
    and "length a = 6" and "list_all isHexDigit a"
    and "length b = 6" and "list_all isHexDigit b"
  shows "calculateContrast lib a b = calculateContrast lib b a"
proof -
  have "wcagContrastSpec x y = wcagContrastSpec y x" for x y
    by (simp add: wcagContrastSpec_def contrastOfLuminances_commute split: option.splits)
  then show ?thesis by (simp add: calculateContrast_def Let_def assms(1))
qed

theorem calculateContrast_symmetric_witness:
  "wcagContrast twoTone = wcagContrastSpec
   \<and> list_all isHexDigit ''000000'' \<and> list_all isHexDigit ''FFFFFF''
   \<and> calculateContrast twoTone ''000000'' ''FFFFFF''
       = calculateContrast twoTone ''FFFFFF'' ''000000''"
  using calculateContrast_symmetric [OF twoTone_fields(2) _ hex_digits_examples(1) _
      hex_digits_examples(2)]
  by (simp add: twoTone_fields isHexDigit_def)



end
